theory Spec2Isabelle
  imports Complex_Main
begin

section \<open>The libroom extension module\<close>

text \<open>
  The module \<^verbatim>\<open>libroom.cpp\<close> holds the global geometric tolerance, the factory
  \<^verbatim>\<open>create_room\<close> and the table of attributes and methods that the classes
  \<^verbatim>\<open>Room\<close> and \<^verbatim>\<open>Wall\<close> expose. The headers \<^verbatim>\<open>geometry.hpp\<close>, \<^verbatim>\<open>utility.hpp\<close>,
  \<^verbatim>\<open>wall.hpp\<close> and \<^verbatim>\<open>room.hpp\<close> it includes are not part of the sources at hand.

  The C type \<^verbatim>\<open>float\<close> is the type parameter \<open>'f\<close>. Definitions that compute with
  it ask only for the operations they use (syntactic classes, no laws), so a
  theorem stated for every \<open>'f\<close> also holds for an arithmetic that rounds.
  Theorems that need the laws of exact arithmetic say so in their sort.
\<close>

subsection \<open>Data\<close>

type_synonym 'f vec = "'f list"

text \<open>An \<^verbatim>\<open>Eigen::MatrixXf\<close> is kept as the list of its columns, \<^verbatim>\<open>col(0)\<close> first.\<close>

type_synonym 'f matrix = "'f vec list"

text \<open>The fields of \<^verbatim>\<open>Wall\<close> that the module exposes (lines 85-92).\<close>

record 'f Wall =
  dim :: int
  absorption :: 'f
  name :: string
  corners :: "'f matrix"
  origin :: "'f vec"
  normal :: "'f vec"
  basis :: "'f matrix"
  flat_corners :: "'f matrix"

text \<open>
  The fields of \<^verbatim>\<open>Room\<close> that the module exposes (lines 60-69) and that
  \<^verbatim>\<open>create_room\<close> writes. The five result collections are parallel: entry \<open>i\<close>
  of each belongs to image source \<open>i\<close>. Their element types are declared in
  \<^verbatim>\<open>room.hpp\<close>; here an order is a count of bounces and a generating wall an index
  into \<open>walls\<close>, absent for the real source.
\<close>

record 'f Room =
  sources :: "'f matrix"
  orders :: "nat list"
  attenuations :: "'f list"
  gen_walls :: "nat option list"
  visible_mics :: "bool list list"
  walls :: "'f Wall list"
  obstructing_walls :: "int list"
  microphones :: "'f matrix"
  dim :: int
  mic_pos :: "'f vec"
  max_dist :: 'f

text \<open>The Python values that reach the module through \<^verbatim>\<open>py::list\<close> and attribute writes.\<close>

datatype 'f py_object =
    PyWall "'f Wall"
  | PyInt int
  | PyFloat 'f
  | PyStr string
  | PyNone

datatype py_exception = cast_error | AttributeError | TypeError

text \<open>
  What a call of a C++ function of the module does: it returns, it throws, or it
  runs into behaviour the language leaves undefined (an unchecked read out of range).
\<close>

datatype 'a outcome = Returns 'a | Throws py_exception | Undefined

fun returned :: "'a outcome \<Rightarrow> bool" where
  "returned (Returns _) = True"
| "returned _ = False"

fun failed :: "'a outcome \<Rightarrow> bool" where
  "failed (Throws _) = True"
| "failed _ = False"

subsection \<open>The global tolerance (lines 17, 109, 110)\<close>

record 'f globals =
  libroom_eps :: 'f

text \<open>
  \<^verbatim>\<open>float libroom_eps = 1e-5;\<close> The literal is rounded to the nearest single-precision
  number, \<open>10995116 / 2 ^ 40\<close>.
\<close>

definition globals_init :: "real globals" where
  "globals_init = \<lparr> libroom_eps = 10995116 / 2 ^ 40 \<rparr>"

definition set_eps :: "'f \<Rightarrow> 'f globals \<Rightarrow> 'f globals" where
  "set_eps eps g = g\<lparr> libroom_eps := eps \<rparr>"

definition get_eps :: "'f globals \<Rightarrow> 'f" where
  "get_eps g = libroom_eps g"

subsection \<open>\<^verbatim>\<open>create_room\<close> (lines 19-42)\<close>

text \<open>\<^verbatim>\<open>wall.cast<Wall>()\<close>: only a \<^verbatim>\<open>Wall\<close> instance converts.\<close>

fun cast_Wall :: "'f py_object \<Rightarrow> py_exception + 'f Wall" where
  "cast_Wall (PyWall w) = Inr w"
| "cast_Wall _ = Inl cast_error"

text \<open>\<^verbatim>\<open>owall.cast<int>()\<close>: a Python integer converts when it fits a 32-bit \<^verbatim>\<open>int\<close>.\<close>

fun cast_int :: "'f py_object \<Rightarrow> py_exception + int" where
  "cast_int (PyInt i) = (if - (2 ^ 31) \<le> i \<and> i < 2 ^ 31 then Inr i else Inl cast_error)"
| "cast_int _ = Inl cast_error"

text \<open>The loop of lines 29-30; the first element that does not convert throws.\<close>

fun push_walls :: "'f Room \<Rightarrow> 'f py_object list \<Rightarrow> py_exception + 'f Room" where
  "push_walls room [] = Inr room"
| "push_walls room (wall # rest) =
     (case cast_Wall wall of
        Inl e \<Rightarrow> Inl e
      | Inr w \<Rightarrow> push_walls (room\<lparr> walls := walls room @ [w] \<rparr>) rest)"

text \<open>The loop of lines 32-33.\<close>

fun push_obstructing_walls :: "'f Room \<Rightarrow> 'f py_object list \<Rightarrow> py_exception + 'f Room" where
  "push_obstructing_walls room [] = Inr room"
| "push_obstructing_walls room (owall # rest) =
     (case cast_int owall of
        Inl e \<Rightarrow> Inl e
      | Inr i \<Rightarrow>
          push_obstructing_walls
            (room\<lparr> obstructing_walls := obstructing_walls room @ [i] \<rparr>) rest)"

text \<open>
  The factory; its arguments \<^verbatim>\<open>_walls\<close>, \<^verbatim>\<open>_obstructing_walls\<close> and \<^verbatim>\<open>_microphones\<close>
  are written with a prime. \<open>room0\<close> is the object \<^verbatim>\<open>new Room()\<close> yields and \<open>get_max_distance\<close>
  is the member function \<^verbatim>\<open>Room::get_max_distance\<close>; both are defined in \<^verbatim>\<open>room.hpp\<close> and
  are parameters here. \<^verbatim>\<open>walls[0]\<close> on an empty vector and \<^verbatim>\<open>col(0)\<close> on a matrix
  without columns are unchecked reads.
\<close>

definition create_room ::
  "'f Room \<Rightarrow> ('f Room \<Rightarrow> 'f) \<Rightarrow> 'f py_object list \<Rightarrow> 'f py_object list \<Rightarrow> 'f matrix
     \<Rightarrow> 'f Room outcome" where
  "create_room room0 get_max_distance walls' obstructing_walls' microphones' =
     (let room = room0\<lparr> microphones := microphones' \<rparr> in
      case push_walls room walls' of
        Inl e \<Rightarrow> Throws e
      | Inr room \<Rightarrow>
     (case push_obstructing_walls room obstructing_walls' of
        Inl e \<Rightarrow> Throws e
      | Inr room \<Rightarrow>
     (case walls room of
        [] \<Rightarrow> Undefined
      | w0 # _ \<Rightarrow>
     (let room = room\<lparr> dim := Wall.dim w0 \<rparr> in
      case microphones' of
        [] \<Rightarrow> Undefined
      | col0 # _ \<Rightarrow>
     (let room = room\<lparr> mic_pos := col0 \<rparr>;
          room = room\<lparr> max_dist := get_max_distance room \<rparr>
      in Returns room)))))"


subsection \<open>The attribute table of \<^verbatim>\<open>Wall\<close> (lines 76-93)\<close>

text \<open>
  \<^verbatim>\<open>def_readonly\<close> registers a property without a setter, \<^verbatim>\<open>def_readwrite\<close> one
  with a setter that converts the value to the field's C++ type. The class is
  registered without dynamic attributes, so a write to any other name is refused too.
\<close>

definition wall_readonly :: "string list" where
  "wall_readonly = [''dim'', ''corners'', ''origin'', ''normal'', ''basis'', ''flat_corners'']"

definition wall_readwrite :: "string list" where
  "wall_readwrite = [''absorption'', ''name'']"

definition wall_methods :: "string list" where
  "wall_methods = [''area'', ''intersection'', ''intersects'', ''side'', ''reflect'', ''same_as'']"

text \<open>
  The conversion of a Python number to \<^verbatim>\<open>float\<close>; \<open>float_of_int\<close> is the rounding
  of an integer, a parameter since \<open>'f\<close> has no laws.
\<close>

fun cast_float :: "(int \<Rightarrow> 'f) \<Rightarrow> 'f py_object \<Rightarrow> py_exception + 'f" where
  "cast_float float_of_int (PyFloat x) = Inr x"
| "cast_float float_of_int (PyInt i) = Inr (float_of_int i)"
| "cast_float float_of_int _ = Inl TypeError"

fun cast_string :: "'f py_object \<Rightarrow> py_exception + string" where
  "cast_string (PyStr s) = Inr s"
| "cast_string _ = Inl TypeError"

text \<open>An attribute write \<^verbatim>\<open>wall.attr = value\<close>.\<close>

definition wall_setattr ::
  "(int \<Rightarrow> 'f) \<Rightarrow> 'f Wall \<Rightarrow> string \<Rightarrow> 'f py_object \<Rightarrow> py_exception + 'f Wall" where
  "wall_setattr float_of_int w attr v =
     (if attr = ''absorption'' then
        (case cast_float float_of_int v of
           Inl e \<Rightarrow> Inl e
         | Inr x \<Rightarrow> Inr (w\<lparr> absorption := x \<rparr>))
      else if attr = ''name'' then
        (case cast_string v of
           Inl e \<Rightarrow> Inl e
         | Inr s \<Rightarrow> Inr (w\<lparr> name := s \<rparr>))
      else Inl AttributeError)"

text \<open>An attribute read: it fails on a name that is not registered, and writes nothing.\<close>

definition wall_getattr :: "'f Wall \<Rightarrow> string \<Rightarrow> py_exception + 'f Wall" where
  "wall_getattr w attr =
     (if attr \<in> set (wall_readonly @ wall_readwrite @ wall_methods) then Inr w
      else Inl AttributeError)"

text \<open>
  Modelled from the spec: the six methods of \<^verbatim>\<open>Wall\<close> (\<^verbatim>\<open>wall.hpp\<close> is missing). The
  spec describes each of them as a query that returns an area, a classification, a
  truth value or a point, and the wall as immutable after construction; so a call
  leaves the wall as it is. What the call returns plays no part in the state.
\<close>

definition wall_call :: "'f Wall \<Rightarrow> string \<Rightarrow> 'f py_object list \<Rightarrow> py_exception + 'f Wall" where
  "wall_call w fname params =
     (if fname \<in> set wall_methods then Inr w else Inl AttributeError)"

datatype 'f wall_op =
    GetAttr string
  | SetAttr string "'f py_object"
  | Call string "'f py_object list"

text \<open>
  One operation of the public interface on a wall. An exception leaves the object
  as it was and is reported; the caller may go on using the wall.
\<close>

fun wall_step :: "(int \<Rightarrow> 'f) \<Rightarrow> 'f wall_op \<Rightarrow> 'f Wall \<Rightarrow> py_exception option \<times> 'f Wall" where
  "wall_step float_of_int (GetAttr attr) w =
     (case wall_getattr w attr of Inl e \<Rightarrow> (Some e, w) | Inr w' \<Rightarrow> (None, w'))"
| "wall_step float_of_int (SetAttr attr v) w =
     (case wall_setattr float_of_int w attr v of Inl e \<Rightarrow> (Some e, w) | Inr w' \<Rightarrow> (None, w'))"
| "wall_step float_of_int (Call fname params) w =
     (case wall_call w fname params of Inl e \<Rightarrow> (Some e, w) | Inr w' \<Rightarrow> (None, w'))"

text \<open>A run of operations, in order.\<close>

fun wall_run :: "(int \<Rightarrow> 'f) \<Rightarrow> 'f wall_op list \<Rightarrow> 'f Wall \<Rightarrow> 'f Wall" where
  "wall_run float_of_int [] w = w"
| "wall_run float_of_int (op # ops) w = wall_run float_of_int ops (snd (wall_step float_of_int op w))"

section \<open>The engine behind the module\<close>

subsection \<open>Vectors\<close>

text \<open>
  Coordinate-wise operations of Eigen on vectors of one length, which is what a room
  of one dimensionality holds.
\<close>

definition vsub :: "'f::minus vec \<Rightarrow> 'f vec \<Rightarrow> 'f vec" where
  "vsub p q = map2 (-) p q"

definition smult :: "'f::times \<Rightarrow> 'f vec \<Rightarrow> 'f vec" where
  "smult c v = map ((*) c) v"

fun dot :: "'f::{zero,plus,times} vec \<Rightarrow> 'f vec \<Rightarrow> 'f" where
  "dot (x # xs) (y # ys) = x * y + dot xs ys"
| "dot _ _ = 0"

subsection \<open>Predicates that read the tolerance\<close>

datatype orientation = Clockwise | CounterClockwise | Collinear

text \<open>
  Modelled from the spec: the orientation test \<^verbatim>\<open>ccw3p\<close> of \<^verbatim>\<open>geometry.hpp\<close>
  (missing), "sign of the 2D cross product; inputs within eps of collinear report
  collinear". The tolerance is the global \<^verbatim>\<open>libroom_eps\<close>.
\<close>

definition ccw3p ::
  "'f::{minus,uminus,times,ord} globals \<Rightarrow> 'f \<times> 'f \<Rightarrow> 'f \<times> 'f \<Rightarrow> 'f \<times> 'f \<Rightarrow> orientation" where
  "ccw3p g p1 p2 p3 =
     (let d = (fst p2 - fst p1) * (snd p3 - snd p1) - (fst p3 - fst p1) * (snd p2 - snd p1)
      in if libroom_eps g < d then CounterClockwise
         else if d < - libroom_eps g then Clockwise
         else Collinear)"

datatype wall_side = InFront | Behind | OnPlane

text \<open>
  Modelled from the spec: \<^verbatim>\<open>Wall::side\<close> of \<^verbatim>\<open>wall.hpp\<close> (missing), "classifies a
  point as in-front-of / behind / on the wall's plane by the sign of the
  normal-dot-(point - origin), tolerant to eps".
\<close>

definition side ::
  "'f::{zero,plus,minus,uminus,times,ord} globals \<Rightarrow> 'f Wall \<Rightarrow> 'f vec \<Rightarrow> wall_side" where
  "side g w p =
     (let d = dot (normal w) (vsub p (origin w))
      in if libroom_eps g < d then InFront
         else if d < - libroom_eps g then Behind
         else OnPlane)"

text \<open>
  Modelled from the spec: \<^verbatim>\<open>Wall::reflect\<close> of \<^verbatim>\<open>wall.hpp\<close> (missing), "mirrors a
  point across the wall's plane", the plane through \<open>origin\<close> with the unit vector
  \<open>normal\<close>: the point moves by twice its signed distance to the plane, against the
  normal.
\<close>

definition reflect :: "'f::{zero,plus,minus,times} Wall \<Rightarrow> 'f vec \<Rightarrow> 'f vec" where
  "reflect w p =
     (let d = dot (vsub p (origin w)) (normal w)
      in vsub p (smult (d + d) (normal w)))"

text \<open>Two points agree up to a tolerance when every coordinate does.\<close>

definition within_eps :: "'f::{minus,abs,ord} \<Rightarrow> 'f vec \<Rightarrow> 'f vec \<Rightarrow> bool" where
  "within_eps eps p q \<longleftrightarrow> length p = length q \<and> list_all2 (\<lambda>a b. \<bar>a - b\<bar> \<le> eps) p q"


subsection \<open>The other predicates that decide with the tolerance\<close>

definition vadd :: "'f::plus vec \<Rightarrow> 'f vec \<Rightarrow> 'f vec" where
  "vadd p q = map2 (+) p q"

datatype 'f plane_hit = NoCrossing | CrossingAt "'f vec" | EndpointAt "'f vec"

text \<open>
  Modelled from the spec: \<^verbatim>\<open>intersection_3d_segment_plane\<close> of \<^verbatim>\<open>geometry.hpp\<close>
  (missing), "given a wall's plane (origin + normal) and a 3D segment, returns
  whether/where the segment crosses the plane; a segment lying within eps of the
  plane is treated as a degenerate no-crossing case", and a segment parallel to
  the plane is "treated as no-intersection, not division-by-zero". \<open>d1\<close> and \<open>d2\<close>
  are the signed distances of the two ends; a crossing with an end within the
  tolerance of the plane is a crossing at an endpoint.
\<close>

definition intersection_3d_segment_plane ::
  "'f::{zero,plus,minus,uminus,times,inverse,abs,ord} globals \<Rightarrow> 'f vec \<Rightarrow> 'f vec \<Rightarrow> 'f vec
     \<Rightarrow> 'f vec \<Rightarrow> 'f plane_hit" where
  "intersection_3d_segment_plane g a1 a2 p n =
     (let d1 = dot n (vsub a1 p);
          d2 = dot n (vsub a2 p)
      in if \<bar>d1\<bar> \<le> libroom_eps g \<and> \<bar>d2\<bar> \<le> libroom_eps g then NoCrossing
         else if (libroom_eps g < d1 \<and> libroom_eps g < d2) \<or>
                 (d1 < - libroom_eps g \<and> d2 < - libroom_eps g) then NoCrossing
         else
           let hit = vadd a1 (smult (d1 / (d1 - d2)) (vsub a2 a1))
           in if \<bar>d1\<bar> \<le> libroom_eps g \<or> \<bar>d2\<bar> \<le> libroom_eps g then EndpointAt hit
              else CrossingAt hit)"

datatype containment = Inside | Outside | OnBoundary

text \<open>
  Modelled from the spec: part of \<^verbatim>\<open>is_inside_2d_polygon\<close>. The edges of an ordered
  polygon, the last corner joined to the first.
\<close>

definition polygon_edges :: "'a list \<Rightarrow> ('a \<times> 'a) list" where
  "polygon_edges cs = zip cs (rotate1 cs)"

text \<open>
  Modelled from the spec: part of \<^verbatim>\<open>is_inside_2d_polygon\<close>. The point lies on the edge
  from \<open>a\<close> to \<open>b\<close>, up to the tolerance: collinear with the two ends by the
  orientation test, and within their bounding box.
\<close>

definition on_segment ::
  "'f::{plus,minus,uminus,times,ord} globals \<Rightarrow> 'f \<times> 'f \<Rightarrow> 'f \<times> 'f \<Rightarrow> 'f \<times> 'f \<Rightarrow> bool" where
  "on_segment g a b p \<longleftrightarrow>
     ccw3p g a b p = Collinear \<and>
     min (fst a) (fst b) - libroom_eps g \<le> fst p \<and>
     fst p \<le> max (fst a) (fst b) + libroom_eps g \<and>
     min (snd a) (snd b) - libroom_eps g \<le> snd p \<and>
     snd p \<le> max (snd a) (snd b) + libroom_eps g"

text \<open>
  Modelled from the spec: part of \<^verbatim>\<open>is_inside_2d_polygon\<close>. The half-line from \<open>p\<close>
  in the direction of the first axis crosses the edge from \<open>a\<close> to \<open>b\<close>: the edge
  passes the height of \<open>p\<close> upwards with \<open>p\<close> on its left, or downwards with \<open>p\<close> on
  its right.
\<close>

definition crosses_right ::
  "'f::{minus,uminus,times,ord} globals \<Rightarrow> 'f \<times> 'f \<Rightarrow> 'f \<times> 'f \<Rightarrow> 'f \<times> 'f \<Rightarrow> bool" where
  "crosses_right g p a b \<longleftrightarrow>
     (snd a \<le> snd p \<and> snd p < snd b \<and> ccw3p g a b p = CounterClockwise) \<or>
     (snd b \<le> snd p \<and> snd p < snd a \<and> ccw3p g a b p = Clockwise)"

text \<open>
  Modelled from the spec: \<^verbatim>\<open>is_inside_2d_polygon\<close> of \<^verbatim>\<open>geometry.hpp\<close> (missing),
  "given a point and an ordered polygon (in its own 2D plane coordinates), returns
  inside/outside/on-boundary, tolerant to eps". The spec fixes the three answers and
  the tolerance, not the method; here a point on an edge is on the boundary, and
  any other point is inside when a half-line from it crosses the edges an odd
  number of times.
\<close>

definition is_inside_2d_polygon ::
  "'f::{plus,minus,uminus,times,ord} globals \<Rightarrow> 'f \<times> 'f \<Rightarrow> ('f \<times> 'f) list \<Rightarrow> containment" where
  "is_inside_2d_polygon g p polygon =
     (if list_ex (\<lambda>(a, b). on_segment g a b p) (polygon_edges polygon) then OnBoundary
      else if odd (length (filter (\<lambda>(a, b). crosses_right g p a b) (polygon_edges polygon)))
        then Inside
      else Outside)"

text \<open>The enumeration \<^verbatim>\<open>Wall::Isect\<close> as the module exports it (lines 95-100).\<close>

datatype Isect = NONE | VALID | ENDPT | BNDRY

text \<open>
  Modelled from the spec: part of \<^verbatim>\<open>Wall::intersection\<close>. The two coordinates of a
  point of a plane; a shorter vector is filled with zeros.
\<close>

fun to_2d :: "'f::zero vec \<Rightarrow> 'f \<times> 'f" where
  "to_2d (x # y # _) = (x, y)"
| "to_2d [x] = (x, 0)"
| "to_2d [] = (0, 0)"

text \<open>
  Modelled from the spec: part of \<^verbatim>\<open>Wall::intersection\<close>, the "local-frame
  projection" of a point of the wall's plane by the cached basis.
\<close>

definition local_frame :: "'f::{zero,plus,minus,times} Wall \<Rightarrow> 'f vec \<Rightarrow> 'f \<times> 'f" where
  "local_frame w h = to_2d (map (\<lambda>b. dot b (vsub h (origin w))) (basis w))"

text \<open>
  Modelled from the spec: \<^verbatim>\<open>Wall::intersection\<close> of \<^verbatim>\<open>wall.hpp\<close> (missing), "projects
  the 3D wall plane against the segment via the plane-intersection kernel
  primitive, then verifies the hit point lies within the wall's polygon (not just
  its plane) using the point-in-polygon test on the point's local-frame projection;
  returns the same four-way classification as the segment kernel, now
  polygon-aware".
\<close>

definition intersection ::
  "'f::{zero,plus,minus,uminus,times,inverse,abs,ord} globals \<Rightarrow> 'f Wall \<Rightarrow> 'f vec \<Rightarrow> 'f vec
     \<Rightarrow> Isect" where
  "intersection g w a1 a2 =
     (case intersection_3d_segment_plane g a1 a2 (origin w) (normal w) of
        NoCrossing \<Rightarrow> NONE
      | CrossingAt h \<Rightarrow>
          (case is_inside_2d_polygon g (local_frame w h) (map to_2d (flat_corners w)) of
             Outside \<Rightarrow> NONE
           | OnBoundary \<Rightarrow> BNDRY
           | Inside \<Rightarrow> VALID)
      | EndpointAt h \<Rightarrow>
          (case is_inside_2d_polygon g (local_frame w h) (map to_2d (flat_corners w)) of
             Outside \<Rightarrow> NONE
           | OnBoundary \<Rightarrow> BNDRY
           | Inside \<Rightarrow> ENDPT))"

subsection \<open>Calls into the module, one after the other\<close>

text \<open>
  The calls that write or read the tolerance: \<^verbatim>\<open>set_eps\<close> and \<^verbatim>\<open>get_eps\<close> (lines 109,
  110) and the predicates above. The process holds the one global (line 17).
  Modelled from the spec: the predicates are "pure, side-effect-free predicates
  operating under a configurable global tolerance"; a call of one returns its
  answer and leaves the global to the next call.
\<close>

datatype 'f module_call =
    Set_eps 'f
  | Get_eps
  | Ccw3p "'f \<times> 'f" "'f \<times> 'f" "'f \<times> 'f"
  | Intersection_3d_segment_plane "'f vec" "'f vec" "'f vec" "'f vec"
  | Is_inside_2d_polygon "'f \<times> 'f" "('f \<times> 'f) list"
  | Wall_side "'f Wall" "'f vec"
  | Wall_intersection "'f Wall" "'f vec" "'f vec"

datatype 'f module_result =
    Nothing
  | Tolerance 'f
  | Oriented orientation
  | Hit "'f plane_hit"
  | Contained containment
  | Sided wall_side
  | Isected Isect

fun module_step ::
  "'f::{zero,plus,minus,uminus,times,inverse,abs,ord} module_call \<Rightarrow> 'f globals
     \<Rightarrow> 'f module_result \<times> 'f globals" where
  "module_step (Set_eps eps) g = (Nothing, set_eps eps g)"
| "module_step Get_eps g = (Tolerance (get_eps g), g)"
| "module_step (Ccw3p p1 p2 p3) g = (Oriented (ccw3p g p1 p2 p3), g)"
| "module_step (Intersection_3d_segment_plane a1 a2 p n) g =
     (Hit (intersection_3d_segment_plane g a1 a2 p n), g)"
| "module_step (Is_inside_2d_polygon p polygon) g =
     (Contained (is_inside_2d_polygon g p polygon), g)"
| "module_step (Wall_side w p) g = (Sided (side g w p), g)"
| "module_step (Wall_intersection w a1 a2) g = (Isected (intersection g w a1 a2), g)"

fun module_run ::
  "'f::{zero,plus,minus,uminus,times,inverse,abs,ord} module_call list \<Rightarrow> 'f globals
     \<Rightarrow> 'f module_result list \<times> 'f globals" where
  "module_run [] g = ([], g)"
| "module_run (c # cs) g =
     (case module_step c g of
        (r, g') \<Rightarrow> (case module_run cs g' of (rs, g'') \<Rightarrow> (r # rs, g'')))"


subsection \<open>The image-source model\<close>

text \<open>
  Modelled from the spec: the image-source record, "position, cumulative reflection
  order (count of wall bounces), cumulative attenuation, identifier of the last wall
  reflected off, and a per-microphone visibility flag". The real source has no
  generating wall.
\<close>

record 'f ImageSource =
  position :: "'f vec"
  order :: nat
  attenuation :: 'f
  generating_wall :: "nat option"
  visible :: "bool list"

text \<open>
  Modelled from the spec: one step of the search of \<^verbatim>\<open>Room::image_source_model\<close>
  (\<^verbatim>\<open>room.hpp\<close> is missing). "For each wall w, compute the mirror image across w's
  plane; the new image is provisionally accepted at order k+1 with attenuation
  multiplied by (1 - w.absorption) and generating wall = w. A generated image is
  rejected (pruned, not expanded further along that branch) when it lies behind the
  wall it was just reflected from relative to the original side (prevents
  reflecting off the back face)." The test is \<^verbatim>\<open>Wall::side\<close> of the image.
\<close>

definition reflections ::
  "'f::{zero,one,plus,minus,uminus,times,ord} globals \<Rightarrow> 'f Wall list \<Rightarrow> 'f ImageSource
     \<Rightarrow> 'f ImageSource list" where
  "reflections g ws img =
     concat (map (\<lambda>wi.
        let w = ws ! wi;
            p = reflect w (position img)
        in if side g w p = Behind then []
           else [\<lparr> position = p,
                   order = Suc (order img),
                   attenuation = attenuation img * (1 - absorption w),
                   generating_wall = Some wi,
                   visible = [] \<rparr>]) [0..<length ws])"

text \<open>
  Modelled from the spec: "Recursive search over reflection order 0..max_order:
  order 0 is the real source itself", with attenuation 1; the images of order
  \<open>k + 1\<close> are the accepted reflections of the images of order \<open>k\<close>.
\<close>

fun images_of_order ::
  "'f::{zero,one,plus,minus,uminus,times,ord} globals \<Rightarrow> 'f Wall list \<Rightarrow> 'f vec \<Rightarrow> nat
     \<Rightarrow> 'f ImageSource list" where
  "images_of_order g ws source 0 =
     [\<lparr> position = source, order = 0, attenuation = 1, generating_wall = None, visible = [] \<rparr>]"
| "images_of_order g ws source (Suc k) =
     concat (map (reflections g ws) (images_of_order g ws source k))"

text \<open>
  Modelled from the spec: the images of all orders \<open>0..max_order\<close>, by order, as the
  "flat, order-indexed collection" of records.
\<close>

definition image_sources ::
  "'f::{zero,one,plus,minus,uminus,times,ord} globals \<Rightarrow> 'f Wall list \<Rightarrow> 'f vec \<Rightarrow> nat
     \<Rightarrow> 'f ImageSource list" where
  "image_sources g ws source max_order =
     concat (map (images_of_order g ws source) [0..<Suc max_order])"

text \<open>
  Modelled from the spec: \<^verbatim>\<open>Room::image_source_model\<close> populates the flat,
  order-indexed record collection of the room. Every image, visible or not, takes
  part in the search; its visibility from each microphone is flagged. The
  visibility test rests on \<^verbatim>\<open>Wall::intersection\<close>, which the spec describes only in
  outline; it is the parameter \<open>is_visible\<close> (room, microphone, image).
\<close>

definition image_source_model ::
  "'f::{zero,one,plus,minus,uminus,times,ord} globals
     \<Rightarrow> ('f Room \<Rightarrow> 'f vec \<Rightarrow> 'f ImageSource \<Rightarrow> bool) \<Rightarrow> 'f Room \<Rightarrow> 'f vec \<Rightarrow> nat \<Rightarrow> 'f Room" where
  "image_source_model g is_visible room source max_order =
     (let found =
            map (\<lambda>img. img\<lparr> visible := map (\<lambda>mic. is_visible room mic img) (microphones room) \<rparr>)
              (image_sources g (walls room) source max_order)
      in room\<lparr> sources := map position found,
               orders := map order found,
               attenuations := map attenuation found,
               gen_walls := map generating_wall found,
               visible_mics := map visible found \<rparr>)"

text \<open>The product of a list of factors, multiplied from the left as the search does.\<close>

definition product :: "'f::{one,times} list \<Rightarrow> 'f" where
  "product xs = foldl (*) 1 xs"

text \<open>The attenuation and the position that a path of wall ids stands for.\<close>

definition path_attenuation :: "'f::{one,minus,times} Wall list \<Rightarrow> nat list \<Rightarrow> 'f" where
  "path_attenuation ws path = product (map (\<lambda>wi. 1 - absorption (ws ! wi)) path)"

definition path_image :: "'f::{zero,plus,minus,times} Wall list \<Rightarrow> 'f vec \<Rightarrow> nat list \<Rightarrow> 'f vec" where
  "path_image ws source path = foldl (\<lambda>p wi. reflect (ws ! wi) p) source path"

text \<open>
  A record follows a path of wall ids when its order is the length of the path, the
  ids are ids of walls, no image along the path was rejected, and attenuation,
  position and generating wall are those of the path.
\<close>

definition follows ::
  "'f::{zero,one,plus,minus,uminus,times,ord} globals \<Rightarrow> 'f Wall list \<Rightarrow> 'f vec
     \<Rightarrow> 'f ImageSource \<Rightarrow> nat list \<Rightarrow> bool" where
  "follows g ws source img path \<longleftrightarrow>
     length path = order img \<and>
     (\<forall>wi\<in>set path. wi < length ws) \<and>
     (\<forall>n<length path.
        side g (ws ! (path ! n)) (path_image ws source (take (Suc n) path)) \<noteq> Behind) \<and>
     attenuation img = path_attenuation ws path \<and>
     position img = path_image ws source path \<and>
     generating_wall img = (if path = [] then None else Some (last path))"

subsection \<open>Single-precision arithmetic\<close>

text \<open>
  The C type \<^verbatim>\<open>float\<close> as the module computes with it: the finite numbers of IEEE 754
  single precision, \<open>m * 2 ^ e\<close> written \<open>Float32 m e\<close> with \<open>m\<close> odd or zero. The sum
  and the product of two of them are formed exactly and then rounded to the nearest
  number with 24 significant bits, to the even one on a tie, and to a multiple of
  \<open>2 ^ - 149\<close> below the normal range. Infinities, NaN and the sign of zero are left
  out; no result in the examples comes near the largest finite number.
\<close>

datatype float32 = Float32 int int

function bit_length :: "int \<Rightarrow> nat" where
  "bit_length m = (if m \<le> 0 then 0 else Suc (bit_length (m div 2)))"
  by pat_completeness auto
termination
  by (relation "measure nat") auto

declare bit_length.simps [simp del]

function normal_form :: "int \<Rightarrow> int \<Rightarrow> float32" where
  "normal_form m e =
     (if m = 0 then Float32 0 0
      else if even m then normal_form (m div 2) (e + 1)
      else Float32 m e)"
  by pat_completeness auto
termination
  by (relation "measure (\<lambda>(m, e). nat \<bar>m\<bar>)") auto

declare normal_form.simps [simp del]

text \<open>The number \<open>m * 2 ^ e\<close> rounded; \<open>t\<close> is the exponent of the last place kept.\<close>

definition round32 :: "int \<Rightarrow> int \<Rightarrow> float32" where
  "round32 m e =
     (let t = max (e + int (bit_length \<bar>m\<bar>) - 24) (- 149)
      in if t \<le> e then normal_form m e
         else
           let s = nat (t - e);
               q = \<bar>m\<bar> div 2 ^ s;
               r = \<bar>m\<bar> mod 2 ^ s;
               half = 2 ^ (s - 1);
               q' = (if half < r \<or> (r = half \<and> odd q) then q + 1 else q)
           in normal_form (sgn m * q') t)"

fun float32_add :: "float32 \<Rightarrow> float32 \<Rightarrow> float32" where
  "float32_add (Float32 m1 e1) (Float32 m2 e2) =
     (let e = min e1 e2
      in round32 (m1 * 2 ^ nat (e1 - e) + m2 * 2 ^ nat (e2 - e)) e)"

fun float32_neg :: "float32 \<Rightarrow> float32" where
  "float32_neg (Float32 m e) = Float32 (- m) e"

fun float32_mul :: "float32 \<Rightarrow> float32 \<Rightarrow> float32" where
  "float32_mul (Float32 m1 e1) (Float32 m2 e2) = round32 (m1 * m2) (e1 + e2)"

fun float32_abs :: "float32 \<Rightarrow> float32" where
  "float32_abs (Float32 m e) = Float32 \<bar>m\<bar> e"

fun float32_le :: "float32 \<Rightarrow> float32 \<Rightarrow> bool" where
  "float32_le (Float32 m1 e1) (Float32 m2 e2) =
     (let e = min e1 e2 in m1 * 2 ^ nat (e1 - e) \<le> m2 * 2 ^ nat (e2 - e))"

instantiation float32 :: "{zero,one,plus,minus,uminus,times,abs,ord}"
begin

definition zero_float32 :: float32 where
  "zero_float32 = Float32 0 0"

definition one_float32 :: float32 where
  "one_float32 = Float32 1 0"

definition plus_float32 :: "float32 \<Rightarrow> float32 \<Rightarrow> float32" where
  "plus_float32 x y = float32_add x y"

definition minus_float32 :: "float32 \<Rightarrow> float32 \<Rightarrow> float32" where
  "minus_float32 x y = float32_add x (float32_neg y)"

definition uminus_float32 :: "float32 \<Rightarrow> float32" where
  "uminus_float32 x = float32_neg x"

definition times_float32 :: "float32 \<Rightarrow> float32 \<Rightarrow> float32" where
  "times_float32 x y = float32_mul x y"

definition abs_float32 :: "float32 \<Rightarrow> float32" where
  "abs_float32 x = float32_abs x"

definition less_eq_float32 :: "float32 \<Rightarrow> float32 \<Rightarrow> bool" where
  "less_eq_float32 x y \<longleftrightarrow> float32_le x y"

definition less_float32 :: "float32 \<Rightarrow> float32 \<Rightarrow> bool" where
  "less_float32 x y \<longleftrightarrow> float32_le x y \<and> \<not> float32_le y x"

instance ..

end

section \<open>Examples\<close>

text \<open>A room as \<^verbatim>\<open>new Room()\<close> leaves it: every collection empty.\<close>

definition empty_room :: "real Room" where
  "empty_room =
     \<lparr> sources = [], orders = [], attenuations = [], gen_walls = [], visible_mics = [],
       walls = [], obstructing_walls = [], microphones = [], dim = 0, mic_pos = [],
       max_dist = 0 \<rparr>"

text \<open>A stand-in for \<^verbatim>\<open>Room::get_max_distance\<close> in the examples.\<close>

definition example_max_distance :: "real Room \<Rightarrow> real" where
  "example_max_distance room = real (length (walls room)) + real (length (microphones room))"

text \<open>The two walls of a corridor in the plane, at \<open>x = 0\<close> and \<open>x = 4\<close>, normals outward.\<close>

definition west_wall :: "real Wall" where
  "west_wall =
     \<lparr> Wall.dim = 2, absorption = 1 / 5, name = ''west'', corners = [[0, 0], [0, 3]],
       origin = [0, 0], normal = [- 1, 0], basis = [], flat_corners = [] \<rparr>"

definition east_wall :: "real Wall" where
  "east_wall =
     \<lparr> Wall.dim = 2, absorption = 1 / 2, name = ''east'', corners = [[4, 3], [4, 0]],
       origin = [4, 3], normal = [1, 0], basis = [], flat_corners = [] \<rparr>"

text \<open>A floor in space, \<open>4\<close> by \<open>3\<close>, normal downward.\<close>

definition floor_wall :: "real Wall" where
  "floor_wall =
     \<lparr> Wall.dim = 3, absorption = 1 / 10, name = ''floor'',
       corners = [[0, 0, 0], [0, 3, 0], [4, 3, 0], [4, 0, 0]],
       origin = [0, 0, 0], normal = [0, 0, - 1],
       basis = [[0, 1, 0], [1, 0, 0]],
       flat_corners = [[0, 0], [3, 0], [3, 4], [0, 4]] \<rparr>"

definition corridor :: "real Room" where
  "corridor = empty_room\<lparr> walls := [west_wall, east_wall], microphones := [[2, 1]], dim := 2,
     mic_pos := [2, 1] \<rparr>"

text \<open>A visibility test for the examples: everything is seen.\<close>

definition all_visible :: "real Room \<Rightarrow> real vec \<Rightarrow> real ImageSource \<Rightarrow> bool" where
  "all_visible room mic img = True"




text \<open>The polygon of \<open>floor_wall\<close> in its own frame, and calls that sit near a decision.\<close>

definition floor_polygon :: "(real \<times> real) list" where
  "floor_polygon = [(0, 0), (3, 0), (3, 4), (0, 4)]"

definition near_calls :: "real module_call list" where
  "near_calls =
     [Get_eps,
      Ccw3p (0, 0) (3, 0) (2, 1 / 1000),
      Is_inside_2d_polygon (2, 1 / 1000) floor_polygon,
      Wall_side floor_wall [1, 2, 1 / 1000],
      Intersection_3d_segment_plane [1, 1, 1] [1, 1, 1 / 1000] [0, 0, 0] [0, 0, - 1],
      Wall_intersection floor_wall [1, 1, 1] [1, 1, - 1]]"

section \<open>Properties of the module\<close>

subsection \<open>The two loops of \<^verbatim>\<open>create_room\<close>\<close>

lemma push_walls_map:
  "push_walls room (map PyWall ws) = Inr (room\<lparr> walls := walls room @ ws \<rparr>)"
  by (induction ws arbitrary: room) simp_all

lemma push_walls_Inr:
  "push_walls room xs = Inr room' \<Longrightarrow>
     \<exists>ws. xs = map PyWall ws \<and> room' = room\<lparr> walls := walls room @ ws \<rparr>"
proof (induction xs arbitrary: room)
  case Nil
  then show ?case by simp
next
  case (Cons x xs)
  then obtain w where x: "x = PyWall w"
    by (cases x) simp_all
  let ?r = "room\<lparr> walls := walls room @ [w] \<rparr>"
  from Cons.prems x have "push_walls ?r xs = Inr room'"
    by simp
  from Cons.IH [OF this] obtain ws where
    "xs = map PyWall ws" "room' = ?r\<lparr> walls := walls ?r @ ws \<rparr>"
    by blast
  then have "x # xs = map PyWall (w # ws) \<and> room' = room\<lparr> walls := walls room @ (w # ws) \<rparr>"
    using x by simp
  then show ?case by (rule exI [of _ "w # ws"])
qed

lemma push_walls_Inl:
  "push_walls room xs = Inl e \<longleftrightarrow> e = cast_error \<and> (\<exists>x\<in>set xs. cast_Wall x = Inl cast_error)"
proof (induction xs arbitrary: room)
  case Nil
  then show ?case by simp
next
  case (Cons x xs)
  show ?case
  proof (cases x)
    case (PyWall w)
    then show ?thesis using Cons.IH [of "room\<lparr> walls := walls room @ [w] \<rparr>"] by simp
  qed auto
qed

lemma push_obstructing_walls_map:
  "\<forall>i\<in>set ids. - (2 ^ 31) \<le> i \<and> i < 2 ^ 31 \<Longrightarrow>
   push_obstructing_walls room (map PyInt ids) =
     Inr (room\<lparr> obstructing_walls := obstructing_walls room @ ids \<rparr>)"
  by (induction ids arbitrary: room) simp_all

lemma push_obstructing_walls_Inr:
  "push_obstructing_walls room xs = Inr room' \<Longrightarrow>
     \<exists>ids. xs = map PyInt ids \<and> (\<forall>i\<in>set ids. - (2 ^ 31) \<le> i \<and> i < 2 ^ 31) \<and>
       room' = room\<lparr> obstructing_walls := obstructing_walls room @ ids \<rparr>"
proof (induction xs arbitrary: room)
  case Nil
  then show ?case by simp
next
  case (Cons x xs)
  then obtain i where x: "x = PyInt i" and i: "- (2 ^ 31) \<le> i \<and> i < 2 ^ 31"
    by (cases x) (simp_all split: if_splits)
  let ?r = "room\<lparr> obstructing_walls := obstructing_walls room @ [i] \<rparr>"
  from Cons.prems x i have "push_obstructing_walls ?r xs = Inr room'"
    by simp
  from Cons.IH [OF this] obtain ids where
    "xs = map PyInt ids" "\<forall>i\<in>set ids. - (2 ^ 31) \<le> i \<and> i < 2 ^ 31"
    "room' = ?r\<lparr> obstructing_walls := obstructing_walls ?r @ ids \<rparr>"
    by blast
  then have "x # xs = map PyInt (i # ids) \<and>
      (\<forall>i\<in>set (i # ids). - (2 ^ 31) \<le> i \<and> i < 2 ^ 31) \<and>
      room' = room\<lparr> obstructing_walls := obstructing_walls room @ (i # ids) \<rparr>"
    using x i by simp
  then show ?case by (rule exI [of _ "i # ids"])
qed

lemma push_obstructing_walls_Inl:
  "push_obstructing_walls room xs = Inl e \<longleftrightarrow>
     e = cast_error \<and> (\<exists>x\<in>set xs. cast_int x = Inl cast_error)"
proof (induction xs arbitrary: room)
  case Nil
  then show ?case by simp
next
  case (Cons x xs)
  show ?case
  proof (cases "cast_int x")
    case (Inl e')
    then have "e' = cast_error" by (cases x) (simp_all split: if_splits)
    with Inl show ?thesis by auto
  next
    case (Inr i)
    then show ?thesis
      using Cons.IH [of "room\<lparr> obstructing_walls := obstructing_walls room @ [i] \<rparr>"] by simp
  qed
qed

subsection \<open>What \<^verbatim>\<open>create_room\<close> returns, and when\<close>

lemma create_room_ok:
  assumes "\<forall>i\<in>set ids. - (2 ^ 31) \<le> i \<and> i < 2 ^ 31"
    and "walls room0 @ ws \<noteq> []" and "mics \<noteq> []"
  shows "create_room room0 gmd (map PyWall ws) (map PyInt ids) mics =
           Returns
             (let room = room0\<lparr> microphones := mics,
                                walls := walls room0 @ ws,
                                obstructing_walls := obstructing_walls room0 @ ids,
                                dim := Wall.dim (hd (walls room0 @ ws)),
                                mic_pos := hd mics \<rparr>
              in room\<lparr> max_dist := gmd room \<rparr>)"
proof -
  obtain w0 rest where w: "walls room0 @ ws = w0 # rest"
    using assms(2) by (cases "walls room0 @ ws") simp_all
  obtain col0 cols where m: "mics = col0 # cols"
    using assms(3) by (cases mics) simp_all
  show ?thesis
    using assms(1) w m
    by (simp add: create_room_def push_walls_map push_obstructing_walls_map Let_def)
qed

lemma create_room_Returns:
  assumes "create_room room0 gmd walls' obstructing_walls' mics = Returns room"
  shows "\<exists>ws ids. walls' = map PyWall ws \<and> obstructing_walls' = map PyInt ids \<and>
           (\<forall>i\<in>set ids. - (2 ^ 31) \<le> i \<and> i < 2 ^ 31) \<and>
           walls room0 @ ws \<noteq> [] \<and> mics \<noteq> []"
proof -
  let ?r1 = "room0\<lparr> microphones := mics \<rparr>"
  from assms obtain r2 where r2: "push_walls ?r1 walls' = Inr r2"
    by (auto simp: create_room_def Let_def split: sum.splits)
  from assms r2 obtain r3 where r3: "push_obstructing_walls r2 obstructing_walls' = Inr r3"
    by (auto simp: create_room_def Let_def split: sum.splits)
  from push_walls_Inr [OF r2] obtain ws where
    ws: "walls' = map PyWall ws" "r2 = ?r1\<lparr> walls := walls ?r1 @ ws \<rparr>"
    by blast
  from push_obstructing_walls_Inr [OF r3] obtain ids where
    ids: "obstructing_walls' = map PyInt ids" "\<forall>i\<in>set ids. - (2 ^ 31) \<le> i \<and> i < 2 ^ 31"
      "r3 = r2\<lparr> obstructing_walls := obstructing_walls r2 @ ids \<rparr>"
    by blast
  have "walls room0 @ ws \<noteq> []" "mics \<noteq> []"
    using assms r2 r3 ws(2) ids(3)
    by (auto simp: create_room_def Let_def split: list.splits)
  with ws(1) ids(1,2) show ?thesis
    by blast
qed

lemma create_room_failed:
  "failed (create_room room0 gmd walls' obstructing_walls' mics) \<longleftrightarrow>
     (\<exists>x\<in>set walls'. cast_Wall x = Inl cast_error) \<or>
     (\<exists>y\<in>set obstructing_walls'. cast_int y = Inl cast_error)"
proof (cases "push_walls (room0\<lparr> microphones := mics \<rparr>) walls'")
  case (Inl e)
  then show ?thesis
    using push_walls_Inl [of "room0\<lparr> microphones := mics \<rparr>" walls' e]
    by (simp add: create_room_def)
next
  case r2: (Inr r2)
  then have nw: "\<not> (\<exists>x\<in>set walls'. cast_Wall x = Inl cast_error)"
    using push_walls_Inl [of "room0\<lparr> microphones := mics \<rparr>" walls' cast_error] by simp
  show ?thesis
  proof (cases "push_obstructing_walls r2 obstructing_walls'")
    case (Inl e)
    then show ?thesis
      using r2 push_obstructing_walls_Inl [of r2 obstructing_walls' e]
      by (simp add: create_room_def)
  next
    case (Inr r3)
    then have "\<not> (\<exists>y\<in>set obstructing_walls'. cast_int y = Inl cast_error)"
      using push_obstructing_walls_Inl [of r2 obstructing_walls' cast_error] by simp
    with nw r2 Inr show ?thesis
      by (simp add: create_room_def Let_def split: list.splits)
  qed
qed

lemma cast_Wall_all:
  "\<forall>x\<in>set xs. cast_Wall x \<noteq> Inl cast_error \<Longrightarrow> \<exists>ws. xs = map PyWall ws"
proof (induction xs)
  case Nil
  then show ?case by simp
next
  case (Cons x xs)
  then obtain ws where ws: "xs = map PyWall ws" by auto
  from Cons.prems obtain w where "x = PyWall w" by (cases x) simp_all
  with ws have "x # xs = map PyWall (w # ws)" by simp
  then show ?case by (rule exI [of _ "w # ws"])
qed

lemma cast_int_all:
  "\<forall>y\<in>set ys. cast_int y \<noteq> Inl cast_error \<Longrightarrow>
     \<exists>ids. ys = map PyInt ids \<and> (\<forall>i\<in>set ids. - (2 ^ 31) \<le> i \<and> i < 2 ^ 31)"
proof (induction ys)
  case Nil
  then show ?case by simp
next
  case (Cons y ys)
  then obtain ids where ids: "ys = map PyInt ids" "\<forall>i\<in>set ids. - (2 ^ 31) \<le> i \<and> i < 2 ^ 31"
    by auto
  from Cons.prems obtain i where "y = PyInt i" "- (2 ^ 31) \<le> i \<and> i < 2 ^ 31"
    by (cases y) (simp_all split: if_splits)
  with ids have "y # ys = map PyInt (i # ids) \<and>
      (\<forall>i\<in>set (i # ids). - (2 ^ 31) \<le> i \<and> i < 2 ^ 31)"
    by simp
  then show ?case by (rule exI [of _ "i # ids"])
qed

lemma create_room_empty_wall_list:
  "create_room empty_room example_max_distance [] [] [[1, 1]] = Undefined"
  by (simp add: create_room_def empty_room_def)

lemma create_room_no_column:
  "create_room room0 gmd walls' obstructing_walls' [] \<noteq> Returns room"
  using create_room_Returns [of room0 gmd walls' obstructing_walls' "[]" room] by blast


text \<open>
  C3. As stated (construction fails with an error whenever the walls'
  dimensionalities are inconsistent) the claim does not hold: a wall of the plane
  followed by a wall of space is accepted, and the room takes the dimensionality of
  the first.
\<close>

theorem create_room_mixed_dims_counterexample:
  "Wall.dim west_wall \<noteq> Wall.dim floor_wall \<and>
   returned (create_room empty_room example_max_distance
     [PyWall west_wall, PyWall floor_wall] [] [[1, 1]]) \<and>
   \<not> failed (create_room empty_room example_max_distance
     [PyWall west_wall, PyWall floor_wall] [] [[1, 1]])"
  by (simp add: create_room_def empty_room_def west_wall_def floor_wall_def)

text \<open>
  C3, amended. \<^verbatim>\<open>create_room\<close> checks the types of the list elements and nothing
  else. Given a non-empty wall list and a microphone matrix with a column, it fails
  with an error exactly when an element of the wall list is not a \<^verbatim>\<open>Wall\<close> or an
  element of the obstructing-wall list does not convert to \<^verbatim>\<open>int\<close>; otherwise it
  returns a room that holds all the walls, of whatever dimensionalities, and has
  the dimensionality of the first one.
\<close>

theorem create_room_checks_casts_only:
  assumes "walls room0 = []" and "walls' \<noteq> []" and "microphones' \<noteq> []"
  shows "(failed (create_room room0 gmd walls' obstructing_walls' microphones') \<longleftrightarrow>
            (\<exists>x\<in>set walls'. cast_Wall x = Inl cast_error) \<or>
            (\<exists>y\<in>set obstructing_walls'. cast_int y = Inl cast_error)) \<and>
         (\<not> failed (create_room room0 gmd walls' obstructing_walls' microphones') \<longrightarrow>
            (\<exists>room. create_room room0 gmd walls' obstructing_walls' microphones' = Returns room \<and>
               map PyWall (walls room) = walls' \<and>
               Room.dim room = Wall.dim (hd (walls room))))"
proof (intro conjI impI)
  show f: "failed (create_room room0 gmd walls' obstructing_walls' microphones') \<longleftrightarrow>
          (\<exists>x\<in>set walls'. cast_Wall x = Inl cast_error) \<or>
          (\<exists>y\<in>set obstructing_walls'. cast_int y = Inl cast_error)"
    by (rule create_room_failed)
  assume "\<not> failed (create_room room0 gmd walls' obstructing_walls' microphones')"
  with f have c: "\<forall>x\<in>set walls'. cast_Wall x \<noteq> Inl cast_error"
    "\<forall>y\<in>set obstructing_walls'. cast_int y \<noteq> Inl cast_error"
    by simp_all
  from cast_Wall_all [OF c(1)] obtain ws where ws: "walls' = map PyWall ws"
    by blast
  from cast_int_all [OF c(2)] obtain ids where
    ids: "obstructing_walls' = map PyInt ids" "\<forall>i\<in>set ids. - (2 ^ 31) \<le> i \<and> i < 2 ^ 31"
    by blast
  have ne: "walls room0 @ ws \<noteq> []"
    using assms(2) ws by simp
  from create_room_ok [OF ids(2) ne assms(3), of gmd]
  show "\<exists>room. create_room room0 gmd walls' obstructing_walls' microphones' = Returns room \<and>
        map PyWall (walls room) = walls' \<and> Room.dim room = Wall.dim (hd (walls room))"
    unfolding ws ids(1) using assms(1) by (simp add: Let_def)
qed

theorem create_room_checks_casts_only_witness:
  "walls empty_room = [] \<and>
   \<not> failed (create_room empty_room example_max_distance
       [PyWall west_wall, PyWall floor_wall] [PyInt 0] [[1, 1]]) \<and>
   (\<exists>room. create_room empty_room example_max_distance
        [PyWall west_wall, PyWall floor_wall] [PyInt 0] [[1, 1]] = Returns room \<and>
      map PyWall (walls room) = [PyWall west_wall, PyWall floor_wall] \<and>
      Room.dim room = Wall.dim (hd (walls room)))"
proof -
  have h: "walls empty_room = []"
    by (simp add: empty_room_def)
  from create_room_checks_casts_only [OF h, of "[PyWall west_wall, PyWall floor_wall]"
      "[[1, 1]]" example_max_distance "[PyInt 0]"] h
  show ?thesis by simp
qed

text \<open>
  C10. Whenever the microphone matrix has a column and \<^verbatim>\<open>create_room\<close> neither
  throws on a list element nor reads \<^verbatim>\<open>walls[0]\<close> of an empty vector, it returns a
  room whose \<open>microphones\<close> is the matrix, whose \<open>mic_pos\<close> is column 0 of it, and
  whose \<open>max_dist\<close> is what \<^verbatim>\<open>get_max_distance\<close> computes on the room as it stands at
  line 39, every other field set and \<open>max_dist\<close> still as \<^verbatim>\<open>new Room()\<close> left it.
\<close>

theorem create_room_mic_pos:
  assumes "microphones' \<noteq> []"
    and "\<forall>x\<in>set walls'. cast_Wall x \<noteq> Inl cast_error"
    and "\<forall>y\<in>set obstructing_walls'. cast_int y \<noteq> Inl cast_error"
    and "walls room0 \<noteq> [] \<or> walls' \<noteq> []"
  shows "\<exists>room. create_room room0 get_max_distance walls' obstructing_walls' microphones' =
             Returns room \<and>
           microphones room = microphones' \<and>
           mic_pos room = hd microphones' \<and>
           max_dist room = get_max_distance (room\<lparr> max_dist := max_dist room0 \<rparr>)"
proof -
  from cast_Wall_all [OF assms(2)] obtain ws where ws: "walls' = map PyWall ws"
    by blast
  from cast_int_all [OF assms(3)] obtain ids where
    ids: "obstructing_walls' = map PyInt ids" "\<forall>i\<in>set ids. - (2 ^ 31) \<le> i \<and> i < 2 ^ 31"
    by blast
  have ne: "walls room0 @ ws \<noteq> []"
    using assms(4) ws by auto
  from create_room_ok [OF ids(2) ne assms(1), of get_max_distance]
  show ?thesis
    unfolding ws ids(1) by (simp add: Let_def)
qed

theorem create_room_mic_pos_witness:
  "\<exists>room. create_room empty_room example_max_distance
       [PyWall west_wall, PyWall east_wall] [PyInt 1] [[2, 1], [3, 2]] = Returns room \<and>
     microphones room = [[2, 1], [3, 2]] \<and>
     mic_pos room = [2, 1] \<and>
     max_dist room = example_max_distance (room\<lparr> max_dist := max_dist empty_room \<rparr>)"
  using create_room_mic_pos [of "[[2, 1], [3, 2]]" "[PyWall west_wall, PyWall east_wall]"
      "[PyInt 1]" empty_room example_max_distance]
  by simp

subsection \<open>The tolerance over a run of calls\<close>



lemma near_calls_default:
  "fst (module_run near_calls globals_init) =
     [Tolerance (10995116 / 2 ^ 40), Oriented CounterClockwise, Contained Inside, Sided Behind,
      Hit NoCrossing, Isected VALID]"
  by (simp add: near_calls_def globals_init_def get_eps_def ccw3p_def is_inside_2d_polygon_def
      on_segment_def crosses_right_def polygon_edges_def floor_polygon_def side_def
      intersection_def intersection_3d_segment_plane_def local_frame_def floor_wall_def
      vsub_def vadd_def smult_def)



subsection \<open>The public interface of a wall\<close>

lemma wall_setattr_frame:
  "wall_setattr float_of_int w attr v = Inr w' \<Longrightarrow>
     \<exists>a n. w' = w\<lparr> absorption := a, name := n \<rparr>"
proof -
  assume s: "wall_setattr float_of_int w attr v = Inr w'"
  have keep: "w\<lparr> absorption := absorption w, name := name w \<rparr> = w"
    by simp
  consider (a) x where "w' = w\<lparr> absorption := x \<rparr>" | (n) t where "w' = w\<lparr> name := t \<rparr>"
    using s by (auto simp: wall_setattr_def split: if_splits sum.splits)
  then show ?thesis
  proof cases
    case a
    then have "w' = w\<lparr> absorption := x, name := name w \<rparr>" by simp
    then show ?thesis by blast
  next
    case n
    then have "w' = w\<lparr> absorption := absorption w, name := t \<rparr>" by simp
    then show ?thesis by blast
  qed
qed

lemma wall_step_frame:
  "\<exists>a n. snd (wall_step float_of_int op w) = w\<lparr> absorption := a, name := n \<rparr>"
proof -
  have keep: "w = w\<lparr> absorption := absorption w, name := name w \<rparr>"
    by simp
  show ?thesis
  proof (cases op)
    case (GetAttr attr)
    then have "snd (wall_step float_of_int op w) = w"
      by (simp add: wall_getattr_def)
    with keep show ?thesis by metis
  next
    case (SetAttr attr v)
    show ?thesis
    proof (cases "wall_setattr float_of_int w attr v")
      case (Inl e)
      with SetAttr have "snd (wall_step float_of_int op w) = w" by simp
      with keep show ?thesis by metis
    next
      case (Inr w')
      with SetAttr have "snd (wall_step float_of_int op w) = w'" by simp
      with wall_setattr_frame [OF Inr] show ?thesis by simp
    qed
  next
    case (Call fname params)
    then have "snd (wall_step float_of_int op w) = w"
      by (simp add: wall_call_def)
    with keep show ?thesis by metis
  qed
qed

lemma wall_run_frame:
  "\<exists>a n. wall_run float_of_int ops w = w\<lparr> absorption := a, name := n \<rparr>"
proof (induction ops arbitrary: w)
  case Nil
  have "w = w\<lparr> absorption := absorption w, name := name w \<rparr>" by simp
  then show ?case by (metis wall_run.simps(1))
next
  case (Cons op ops)
  obtain a n where s: "snd (wall_step float_of_int op w) = w\<lparr> absorption := a, name := n \<rparr>"
    using wall_step_frame [of float_of_int op w] by auto
  obtain a' n' where
    "wall_run float_of_int ops (w\<lparr> absorption := a, name := n \<rparr>) =
       w\<lparr> absorption := a, name := n \<rparr>\<lparr> absorption := a', name := n' \<rparr>"
    using Cons.IH [of "w\<lparr> absorption := a, name := n \<rparr>"] by auto
  with s have "wall_run float_of_int (op # ops) w = w\<lparr> absorption := a', name := n' \<rparr>"
    by simp
  then show ?case by blast
qed

text \<open>
  C9. Whatever operations of the public interface run on a wall, in whatever order
  and whether they succeed or raise, the wall afterwards is the wall before with at
  most \<open>absorption\<close> and \<open>name\<close> replaced: \<open>dim\<close>, \<open>corners\<close>, \<open>origin\<close>, \<open>normal\<close>,
  \<open>basis\<close> and \<open>flat_corners\<close> are as they were. The two writable attributes do
  take the value written.
\<close>

theorem wall_geometry_unchanged:
  "(\<exists>a n. wall_run float_of_int ops w = w\<lparr> absorption := a, name := n \<rparr>) \<and>
   Wall.dim (wall_run float_of_int ops w) = Wall.dim w \<and>
   corners (wall_run float_of_int ops w) = corners w \<and>
   origin (wall_run float_of_int ops w) = origin w \<and>
   normal (wall_run float_of_int ops w) = normal w \<and>
   basis (wall_run float_of_int ops w) = basis w \<and>
   flat_corners (wall_run float_of_int ops w) = flat_corners w \<and>
   absorption (wall_run float_of_int [SetAttr ''absorption'' (PyFloat x)] w) = x \<and>
   name (wall_run float_of_int [SetAttr ''name'' (PyStr s)] w) = s"
proof -
  obtain a n where r: "wall_run float_of_int ops w = w\<lparr> absorption := a, name := n \<rparr>"
    using wall_run_frame [of float_of_int ops w] by auto
  have "absorption (wall_run float_of_int [SetAttr ''absorption'' (PyFloat x)] w) = x"
    by (simp add: wall_setattr_def)
  moreover have "name (wall_run float_of_int [SetAttr ''name'' (PyStr s)] w) = s"
    by (simp add: wall_setattr_def)
  moreover have "\<exists>a n. wall_run float_of_int ops w = w\<lparr> absorption := a, name := n \<rparr>"
    using r by blast
  ultimately show ?thesis
    by (simp add: r)
qed


subsection \<open>Attenuation along a path\<close>

lemma product_snoc: "product (xs @ [x]) = product xs * x"
  by (simp add: product_def)

lemma product_prod_list: "product xs = prod_list (xs :: 'a::comm_monoid_mult list)"
proof -
  have "foldl (*) a xs = a * prod_list xs" for a :: 'a
    by (induction xs arbitrary: a) (simp_all add: mult.assoc)
  then show ?thesis by (simp add: product_def)
qed

lemma path_attenuation_snoc:
  "path_attenuation ws (path @ [wi]) = path_attenuation ws path * (1 - absorption (ws ! wi))"
  by (simp add: path_attenuation_def product_snoc)

lemma path_image_snoc:
  "path_image ws source (path @ [wi]) = reflect (ws ! wi) (path_image ws source path)"
  by (simp add: path_image_def)

lemma reflections_follows:
  assumes "follows g ws source img path" and "img' \<in> set (reflections g ws img)"
  shows "\<exists>wi. follows g ws source img' (path @ [wi])"
proof -
  from assms(2) obtain wi where wi: "wi < length ws"
    and acc: "side g (ws ! wi) (reflect (ws ! wi) (position img)) \<noteq> Behind"
    and img': "img' = \<lparr> position = reflect (ws ! wi) (position img),
                   order = Suc (order img),
                   attenuation = attenuation img * (1 - absorption (ws ! wi)),
                   generating_wall = Some wi,
                   visible = [] \<rparr>"
    by (auto simp: reflections_def Let_def split: if_splits)
  have pos: "position img = path_image ws source path"
    using assms(1) by (simp add: follows_def)
  have "side g (ws ! ((path @ [wi]) ! n)) (path_image ws source (take (Suc n) (path @ [wi])))
      \<noteq> Behind" if "n < Suc (length path)" for n
  proof (cases "n < length path")
    case True
    then show ?thesis
      using assms(1) by (simp add: follows_def nth_append)
  next
    case False
    with that have "n = length path" by simp
    then show ?thesis
      using acc pos by (simp add: path_image_snoc)
  qed
  with assms(1) have "follows g ws source img' (path @ [wi])"
    unfolding follows_def img'
    by (simp add: path_attenuation_snoc path_image_snoc wi)
  then show ?thesis ..
qed

lemma images_of_order_follows:
  "img \<in> set (images_of_order g ws source k) \<Longrightarrow>
     \<exists>path. follows g ws source img path \<and> order img = k"
proof (induction k arbitrary: img)
  case 0
  then have "follows g ws source img []"
    by (simp add: follows_def path_attenuation_def product_def path_image_def)
  with 0 show ?case by auto
next
  case (Suc k)
  then obtain img0 where img0: "img0 \<in> set (images_of_order g ws source k)"
    and r: "img \<in> set (reflections g ws img0)"
    by auto
  from Suc.IH [OF img0] obtain path where p: "follows g ws source img0 path" "order img0 = k"
    by blast
  from reflections_follows [OF p(1) r] obtain wi where f: "follows g ws source img (path @ [wi])"
    by blast
  then have "order img = Suc k"
    using p by (simp add: follows_def)
  with f show ?case by blast
qed

lemma image_sources_follows:
  assumes "img \<in> set (image_sources g ws source max_order)"
  shows "\<exists>path. follows g ws source img path \<and> order img \<le> max_order"
proof -
  from assms obtain k where "k \<le> max_order" "img \<in> set (images_of_order g ws source k)"
    by (auto simp: image_sources_def less_Suc_eq_le simp del: upt_Suc)
  with images_of_order_follows [of img g ws source k] show ?thesis
    by auto
qed

lemma corridor_images:
  "image_source_model globals_init all_visible corridor [1, 1] 2 =
     corridor\<lparr> sources := [[1, 1], [- 1, 1], [7, 1], [9, 1], [- 7, 1]],
               orders := [0, 1, 1, 2, 2],
               attenuations := [1, 4 / 5, 1 / 2, 2 / 5, 2 / 5],
               gen_walls := [None, Some 0, Some 1, Some 1, Some 0],
               visible_mics := [[True], [True], [True], [True], [True]] \<rparr>"
  by (simp add: image_source_model_def image_sources_def reflections_def reflect_def side_def
      vsub_def smult_def corridor_def empty_room_def west_wall_def east_wall_def
      globals_init_def all_visible_def Let_def numeral_2_eq_2)

text \<open>
  C2. Every record that \<^verbatim>\<open>image_source_model\<close> stores has a path of wall ids, as
  long as its order and at most \<open>max_order\<close>, along which no image was rejected, such
  that the record's position is the source mirrored across the walls of the path
  in turn, its generating wall is the last wall of the path, and its attenuation is
  the product of \<open>1 - absorption\<close> over the walls of the path; for order 0 the
  attenuation is 1. This holds for every arithmetic on \<open>'f\<close>, the factors multiplied
  in path order.
\<close>

theorem image_source_model_attenuation:
  assumes "room' = image_source_model g is_visible room source max_order"
    and "i < length (orders room')"
  shows "\<exists>path. length path = orders room' ! i \<and>
           orders room' ! i \<le> max_order \<and>
           (\<forall>wi\<in>set path. wi < length (walls room)) \<and>
           (\<forall>n<length path.
              side g (walls room ! (path ! n))
                (path_image (walls room) source (take (Suc n) path)) \<noteq> Behind) \<and>
           sources room' ! i = path_image (walls room) source path \<and>
           gen_walls room' ! i = (if path = [] then None else Some (last path)) \<and>
           attenuations room' ! i =
             product (map (\<lambda>wi. 1 - absorption (walls room ! wi)) path) \<and>
           (orders room' ! i = 0 \<longrightarrow> attenuations room' ! i = 1)"
proof -
  let ?found = "image_sources g (walls room) source max_order"
  have i: "i < length ?found"
    using assms by (simp add: image_source_model_def Let_def)
  then have "?found ! i \<in> set ?found"
    by simp
  from image_sources_follows [OF this] obtain path where
    p: "follows g (walls room) source (?found ! i) path" "order (?found ! i) \<le> max_order"
    by blast
  have f: "orders room' ! i = order (?found ! i)"
    "attenuations room' ! i = attenuation (?found ! i)"
    "sources room' ! i = position (?found ! i)"
    "gen_walls room' ! i = generating_wall (?found ! i)"
    using i by (simp_all add: assms(1) image_source_model_def Let_def)
  have "orders room' ! i = 0 \<longrightarrow> attenuations room' ! i = 1"
    using p(1) f by (auto simp: follows_def path_attenuation_def product_def)
  with p f have "length path = orders room' ! i \<and>
           orders room' ! i \<le> max_order \<and>
           (\<forall>wi\<in>set path. wi < length (walls room)) \<and>
           (\<forall>n<length path.
              side g (walls room ! (path ! n))
                (path_image (walls room) source (take (Suc n) path)) \<noteq> Behind) \<and>
           sources room' ! i = path_image (walls room) source path \<and>
           gen_walls room' ! i = (if path = [] then None else Some (last path)) \<and>
           attenuations room' ! i =
             product (map (\<lambda>wi. 1 - absorption (walls room ! wi)) path) \<and>
           (orders room' ! i = 0 \<longrightarrow> attenuations room' ! i = 1)"
    unfolding follows_def path_attenuation_def by simp
  then show ?thesis ..
qed

theorem image_source_model_attenuation_witness:
  "3 < length (orders (image_source_model globals_init all_visible corridor [1, 1] 2)) \<and>
   attenuations (image_source_model globals_init all_visible corridor [1, 1] 2) ! 3 = 2 / 5 \<and>
   (\<exists>path. length path = 2 \<and>
      (\<forall>wi\<in>set path. wi < 2) \<and>
      [9, 1] = path_image (walls corridor) [1, 1] path \<and>
      Some 1 = (if path = [] then None else Some (last path)) \<and>
      2 / 5 = product (map (\<lambda>wi. 1 - absorption (walls corridor ! wi)) path))"
proof -
  let ?room' = "image_source_model globals_init all_visible corridor [1, 1] 2"
  have h: "3 < length (orders ?room')"
    by (simp add: corridor_images)
  have w: "length (walls corridor) = 2"
    by (simp add: corridor_def)
  from image_source_model_attenuation [OF refl h] obtain path where
    "length path = orders ?room' ! 3"
    "\<forall>wi\<in>set path. wi < length (walls corridor)"
    "sources ?room' ! 3 = path_image (walls corridor) [1, 1] path"
    "gen_walls ?room' ! 3 = (if path = [] then None else Some (last path))"
    "attenuations ?room' ! 3 = product (map (\<lambda>wi. 1 - absorption (walls corridor ! wi)) path)"
    by blast
  then have "length path = 2 \<and>
      (\<forall>wi\<in>set path. wi < 2) \<and>
      [9, 1] = path_image (walls corridor) [1, 1] path \<and>
      Some 1 = (if path = [] then None else Some (last path)) \<and>
      2 / 5 = product (map (\<lambda>wi. 1 - absorption (walls corridor ! wi)) path)"
    using w by (simp add: corridor_images)
  then have "\<exists>path. length path = 2 \<and>
      (\<forall>wi\<in>set path. wi < 2) \<and>
      [9, 1] = path_image (walls corridor) [1, 1] path \<and>
      Some 1 = (if path = [] then None else Some (last path)) \<and>
      2 / 5 = product (map (\<lambda>wi. 1 - absorption (walls corridor ! wi)) path)" ..
  with h show ?thesis
    by (simp add: corridor_images)
qed

subsection \<open>Mirroring twice\<close>





lemma within_eps_negative:
  "\<not> within_eps (get_eps (set_eps (- 1) globals_init))
       (reflect floor_wall (reflect floor_wall [1, 2, 3])) [1, 2, 3]"
  by (simp add: within_eps_def get_eps_def set_eps_def reflect_def floor_wall_def vsub_def
      smult_def)




end
